theory Spec2Isabelle
  imports Main "HOL-Library.Word" "HOL-Library.Multiset"
begin

unbundle bit_operations_syntax

section \<open>Addresses and prefixes (package net/netip)\<close>

text \<open>
  The program in \<^verbatim>\<open>get_subnets.go\<close> parses every candidate line with
  \<^verbatim>\<open>netip.ParsePrefix\<close>, keeps the IPv4 results, collects them in a
  \<^verbatim>\<open>netipx.IPSetBuilder\<close> and returns \<^verbatim>\<open>IPSet().Prefixes()\<close>.
  This section embeds the parts of net/netip these calls run through.

  Go keeps an address as a 128-bit number plus a family tag: \<^verbatim>\<open>z0\<close> for the
  zero Addr, \<^verbatim>\<open>z4\<close> for IPv4 (stored as the IPv4-mapped number
  \<^verbatim>\<open>0xffff00000000 | v4\<close>), and for IPv6 either \<^verbatim>\<open>z6noz\<close> or an
  interned zone name. Here \<open>z6 []\<close> stands for \<^verbatim>\<open>z6noz\<close>; Go never
  interns an empty zone.
\<close>

type_synonym uint128 = "128 word"

datatype zone = z0 | z4 | z6 string

record Addr =
  addr :: uint128
  z :: zone

definition AddrZero :: Addr where
  "AddrZero = \<lparr>addr = 0, z = z0\<rparr>"

definition Is4 :: "Addr \<Rightarrow> bool" where
  "Is4 ip = (z ip = z4)"

definition Is6 :: "Addr \<Rightarrow> bool" where
  "Is6 ip = (z ip \<noteq> z0 \<and> z ip \<noteq> z4)"

definition Addr_IsValid :: "Addr \<Rightarrow> bool" where
  "Addr_IsValid ip = (z ip \<noteq> z0)"

definition BitLen :: "Addr \<Rightarrow> nat" where
  "BitLen ip = (case z ip of z0 \<Rightarrow> 0 | z4 \<Rightarrow> 32 | z6 _ \<Rightarrow> 128)"

definition withoutZone :: "Addr \<Rightarrow> Addr" where
  "withoutZone ip = (if Is6 ip then ip\<lparr>z := z6 []\<rparr> else ip)"

definition WithZone :: "Addr \<Rightarrow> string \<Rightarrow> Addr" where
  "WithZone ip zn = (if Is6 ip then ip\<lparr>z := z6 zn\<rparr> else ip)"

text \<open>\<^verbatim>\<open>AddrFrom4\<close> and \<^verbatim>\<open>AddrFrom16\<close>: bytes in network order.\<close>

definition bytesToWord :: "nat list \<Rightarrow> uint128" where
  "bytesToWord bs = foldl (\<lambda>acc b. push_bit 8 acc OR of_nat b) 0 bs"

definition AddrFrom4 :: "nat list \<Rightarrow> Addr" where
  "AddrFrom4 bs = \<lparr>addr = 0xffff00000000 OR bytesToWord bs, z = z4\<rparr>"

definition AddrFrom16 :: "nat list \<Rightarrow> Addr" where
  "AddrFrom16 bs = \<lparr>addr = bytesToWord bs, z = z6 []\<rparr>"

text \<open>
  A \<^verbatim>\<open>netip.Prefix\<close> is an address and \<^verbatim>\<open>bitsPlusOne\<close>; zero marks the
  invalid prefix, whose \<^verbatim>\<open>Bits()\<close> is \<open>-1\<close>.
\<close>

record Prefix =
  ip :: Addr
  bitsPlusOne :: nat

definition Bits :: "Prefix \<Rightarrow> int" where
  "Bits p = int (bitsPlusOne p) - 1"

definition Prefix_IsValid :: "Prefix \<Rightarrow> bool" where
  "Prefix_IsValid p = (bitsPlusOne p > 0)"

definition PrefixFrom :: "Addr \<Rightarrow> int \<Rightarrow> Prefix" where
  "PrefixFrom a b =
     \<lparr>ip = withoutZone a,
      bitsPlusOne = (if z a \<noteq> z0 \<and> 0 \<le> b \<and> b \<le> int (BitLen a) then nat b + 1 else 0)\<rparr>"

subsection \<open>Parsing\<close>

text \<open>
  Errors are values. Each constructor stands for one message of the Go parser; the
  offending input is the argument the caller already holds.
\<close>

datatype parseAddrError =
    UnableToParseIP
  | MissingIPv6Address
  | OctetLeadingZero
  | OctetTooBig
  | FieldWithoutDigit
  | IPv4TooLong
  | IPv4TooShort
  | UnexpectedCharacter
  | EmptyZone
  | GroupTooLong
  | GroupTooBig
  | GroupWithoutDigit
  | EmbeddedIPv4Misplaced
  | EmbeddedIPv4NoRoom
  | WantColon
  | ColonAtEnd
  | MultipleEllipsis
  | TrailingGarbage
  | AddressTooShort
  | EllipsisExpandsNothing

datatype parsePrefixError =
    NoSlash
  | BadAddr parseAddrError
  | ZoneInPrefix
  | BadBits string
  | PrefixLengthOutOfRange

definition isDigit :: "char \<Rightarrow> bool" where
  "isDigit c = (48 \<le> (of_char c :: nat) \<and> (of_char c :: nat) \<le> 57)"

definition digitVal :: "char \<Rightarrow> nat" where
  "digitVal c = of_char c - 48"

text \<open>
  \<^verbatim>\<open>parseIPv4Fields\<close>: one pass over the bytes. \<open>prev\<close> is the byte before the
  current one (\<open>None\<close> at index 0), \<open>fs\<close> the octets stored so far (the Go
  variable \<^verbatim>\<open>pos\<close> is their number).
\<close>

fun parseIPv4Fields_loop ::
  "char option \<Rightarrow> nat \<Rightarrow> nat \<Rightarrow> nat list \<Rightarrow> string \<Rightarrow> parseAddrError + nat list" where
  "parseIPv4Fields_loop prev val digLen fs [] =
     (if length fs < 3 then Inl IPv4TooShort else Inr (fs @ [val]))"
| "parseIPv4Fields_loop prev val digLen fs (c # s) =
     (if isDigit c then
        (if digLen = 1 \<and> val = 0 then Inl OctetLeadingZero
         else if val * 10 + digitVal c > 255 then Inl OctetTooBig
         else parseIPv4Fields_loop (Some c) (val * 10 + digitVal c) (digLen + 1) fs s)
      else if c = CHR ''.'' then
        (if prev = None \<or> s = [] \<or> prev = Some CHR ''.'' then Inl FieldWithoutDigit
         else if length fs = 3 then Inl IPv4TooLong
         else parseIPv4Fields_loop (Some c) 0 0 (fs @ [val]) s)
      else Inl UnexpectedCharacter)"

definition parseIPv4Fields :: "string \<Rightarrow> parseAddrError + nat list" where
  "parseIPv4Fields s = parseIPv4Fields_loop None 0 0 [] s"

definition parseIPv4 :: "string \<Rightarrow> parseAddrError + Addr" where
  "parseIPv4 s = (case parseIPv4Fields s of Inl e \<Rightarrow> Inl e | Inr fs \<Rightarrow> Inr (AddrFrom4 fs))"

text \<open>\<^verbatim>\<open>parseIPv6\<close>: the hexadecimal digits of one group.\<close>

definition hexVal :: "char \<Rightarrow> nat option" where
  "hexVal c =
     (let n = (of_char c :: nat) in
      if 48 \<le> n \<and> n \<le> 57 then Some (n - 48)
      else if 97 \<le> n \<and> n \<le> 102 then Some (n - 97 + 10)
      else if 65 \<le> n \<and> n \<le> 70 then Some (n - 65 + 10)
      else None)"

fun hexGroup :: "nat \<Rightarrow> nat \<Rightarrow> string \<Rightarrow> parseAddrError + (nat \<times> nat \<times> string)" where
  "hexGroup off acc [] = Inr (off, acc, [])"
| "hexGroup off acc (c # cs) =
     (case hexVal c of
        None \<Rightarrow> Inr (off, acc, c # cs)
      | Some d \<Rightarrow>
          if off > 3 then Inl GroupTooLong
          else if acc * 16 + d > 65535 then Inl GroupTooBig
          else hexGroup (off + 1) (acc * 16 + d) cs)"

text \<open>
  The main loop of \<^verbatim>\<open>parseIPv6\<close>. \<open>bs\<close> are the bytes written so far (the Go index
  \<^verbatim>\<open>i\<close> is their number), \<open>ell\<close> the position of the ellipsis if one was seen.
  It returns the bytes, the ellipsis and the unread rest of the string.
\<close>

function parseIPv6_loop ::
  "nat list \<Rightarrow> nat option \<Rightarrow> string \<Rightarrow> parseAddrError + (nat list \<times> nat option \<times> string)" where
  "parseIPv6_loop bs ell s =
     (if \<not> length bs < 16 then Inr (bs, ell, s)
      else case hexGroup 0 0 s of
        Inl e \<Rightarrow> Inl e
      | Inr (off, acc, rest) \<Rightarrow>
          if off = 0 then Inl GroupWithoutDigit
          else if rest \<noteq> [] \<and> hd rest = CHR ''.'' then
            (if ell = None \<and> length bs \<noteq> 12 then Inl EmbeddedIPv4Misplaced
             else if length bs + 4 > 16 then Inl EmbeddedIPv4NoRoom
             else case parseIPv4Fields s of
                    Inl e \<Rightarrow> Inl e
                  | Inr fs \<Rightarrow> Inr (bs @ fs, ell, []))
          else
            (let bs' = bs @ [acc div 256, acc mod 256] in
             if rest = [] then Inr (bs', ell, [])
             else if hd rest \<noteq> CHR '':'' then Inl WantColon
             else if length rest = 1 then Inl ColonAtEnd
             else if hd (tl rest) = CHR '':'' then
               (if ell \<noteq> None then Inl MultipleEllipsis
                else if tl (tl rest) = [] then Inr (bs', Some (length bs'), [])
                else parseIPv6_loop bs' (Some (length bs')) (tl (tl rest)))
             else parseIPv6_loop bs' ell (tl rest)))"
  by pat_completeness auto
termination
  by (relation "measure (\<lambda>(bs, ell, s). 16 - length bs)") auto

declare parseIPv6_loop.simps [simp del]

definition splitZone :: "string \<Rightarrow> string \<times> string option" where
  "splitZone s =
     (if CHR ''%'' \<in> set s
      then (takeWhile (\<lambda>c. c \<noteq> CHR ''%'') s, Some (tl (dropWhile (\<lambda>c. c \<noteq> CHR ''%'') s)))
      else (s, None))"

definition parseIPv6 :: "string \<Rightarrow> parseAddrError + Addr" where
  "parseIPv6 inp =
     (let (s, zn) = splitZone inp in
      if zn = Some [] then Inl EmptyZone
      else
        let zone = (case zn of None \<Rightarrow> [] | Some t \<Rightarrow> t);
            lead = (length s \<ge> 2 \<and> take 2 s = ''::'');
            s1 = (if lead then drop 2 s else s)
        in
        if lead \<and> s1 = [] then Inr (WithZone \<lparr>addr = 0, z = z6 []\<rparr> zone)
        else case parseIPv6_loop [] (if lead then Some 0 else None) s1 of
          Inl e \<Rightarrow> Inl e
        | Inr (bs, ell, rest) \<Rightarrow>
            if rest \<noteq> [] then Inl TrailingGarbage
            else if length bs < 16 then
              (case ell of
                 None \<Rightarrow> Inl AddressTooShort
               | Some e \<Rightarrow>
                   Inr (WithZone
                     (AddrFrom16 (take e bs @ replicate (16 - length bs) 0 @ drop e bs)) zone))
            else if ell \<noteq> None then Inl EllipsisExpandsNothing
            else Inr (WithZone (AddrFrom16 bs) zone))"

text \<open>\<^verbatim>\<open>ParseAddr\<close> looks for the first of \<^verbatim>\<open>. : %\<close> to choose the parser.\<close>

fun ParseAddr_scan :: "string \<Rightarrow> string \<Rightarrow> parseAddrError + Addr" where
  "ParseAddr_scan s [] = Inl UnableToParseIP"
| "ParseAddr_scan s (c # cs) =
     (if c = CHR ''.'' then parseIPv4 s
      else if c = CHR '':'' then parseIPv6 s
      else if c = CHR ''%'' then Inl MissingIPv6Address
      else ParseAddr_scan s cs)"

definition ParseAddr :: "string \<Rightarrow> parseAddrError + Addr" where
  "ParseAddr s = ParseAddr_scan s s"

text \<open>
  \<^verbatim>\<open>strconv.Atoi\<close>: an optional sign and decimal digits, within the range of a
  64-bit \<^verbatim>\<open>int\<close>.
\<close>

definition decimal :: "string \<Rightarrow> nat" where
  "decimal ds = foldl (\<lambda>n c. n * 10 + digitVal c) 0 ds"

definition Atoi :: "string \<Rightarrow> int option" where
  "Atoi s =
     (let neg = (s \<noteq> [] \<and> hd s = CHR ''-'');
          ds = (if s \<noteq> [] \<and> (hd s = CHR ''-'' \<or> hd s = CHR ''+'') then tl s else s);
          v = (if neg then - int (decimal ds) else int (decimal ds))
      in if ds = [] \<or> \<not> list_all isDigit ds then None
         else if v < - (2 ^ 63) \<or> v > 2 ^ 63 - 1 then None
         else Some v)"

text \<open>
  \<^verbatim>\<open>ParsePrefix\<close>: split at the last \<^verbatim>\<open>/\<close>; the address must parse and carry
  no zone; the length must be written without sign or leading zero and lie within
  the family's width.
\<close>

definition ParsePrefix :: "string \<Rightarrow> parsePrefixError + Prefix" where
  "ParsePrefix s =
     (if CHR ''/'' \<notin> set s then Inl NoSlash
      else
        let bitsStr = rev (takeWhile (\<lambda>c. c \<noteq> CHR ''/'') (rev s));
            addrStr = rev (tl (dropWhile (\<lambda>c. c \<noteq> CHR ''/'') (rev s)))
        in case ParseAddr addrStr of
          Inl e \<Rightarrow> Inl (BadAddr e)
        | Inr a \<Rightarrow>
            if Is6 a \<and> z a \<noteq> z6 [] then Inl ZoneInPrefix
            else if length bitsStr > 1
                    \<and> ((of_char (hd bitsStr) :: nat) < 49 \<or> (of_char (hd bitsStr) :: nat) > 57)
              then Inl (BadBits bitsStr)
            else case Atoi bitsStr of
              None \<Rightarrow> Inl (BadBits bitsStr)
            | Some b \<Rightarrow>
                if b < 0 \<or> b > (if Is6 a then 128 else 32) then Inl PrefixLengthOutOfRange
                else Inr (PrefixFrom a b))"


subsection \<open>Comparing and stepping addresses\<close>

fun strLess :: "string \<Rightarrow> string \<Rightarrow> bool" where
  "strLess [] [] = False"
| "strLess [] (y # ys) = True"
| "strLess (x # xs) [] = False"
| "strLess (x # xs) (y # ys) =
     ((of_char x :: nat) < of_char y \<or> (x = y \<and> strLess xs ys))"

definition Zone :: "Addr \<Rightarrow> string" where
  "Zone a = (case z a of z6 zn \<Rightarrow> zn | _ \<Rightarrow> [])"

definition Compare :: "Addr \<Rightarrow> Addr \<Rightarrow> int" where
  "Compare a b =
     (if BitLen a < BitLen b then -1
      else if BitLen a > BitLen b then 1
      else if addr a < addr b then -1
      else if addr a > addr b then 1
      else if Is6 a \<and> strLess (Zone a) (Zone b) then -1
      else if Is6 a \<and> strLess (Zone b) (Zone a) then 1
      else 0)"

definition Less :: "Addr \<Rightarrow> Addr \<Rightarrow> bool" where
  "Less a b = (Compare a b = -1)"

text \<open>\<^verbatim>\<open>Next\<close>: the following address, or the zero Addr past the last one.\<close>

definition Next :: "Addr \<Rightarrow> Addr" where
  "Next a =
     (if Is4 a then
        (if (ucast (addr a + 1) :: 32 word) = 0 then AddrZero else a\<lparr>addr := addr a + 1\<rparr>)
      else
        (if addr a + 1 = 0 then AddrZero else a\<lparr>addr := addr a + 1\<rparr>))"

subsection \<open>Masking\<close>

text \<open>\<^verbatim>\<open>mask6(n)\<close> has the topmost \<open>n\<close> of 128 bits set.\<close>

definition mask6 :: "nat \<Rightarrow> uint128" where
  "mask6 n = NOT (mask (128 - n))"

definition PrefixZero :: Prefix where
  "PrefixZero = \<lparr>ip = AddrZero, bitsPlusOne = 0\<rparr>"

text \<open>
  \<^verbatim>\<open>Addr.Prefix(b)\<close> keeps the top \<open>b\<close> bits of the address; \<^verbatim>\<open>Masked\<close>
  applies it with the prefix's own length.
\<close>

definition Addr_Prefix :: "Addr \<Rightarrow> int \<Rightarrow> Prefix" where
  "Addr_Prefix a b =
     (if b < 0 then PrefixZero
      else case z a of
        z0 \<Rightarrow> PrefixZero
      | z4 \<Rightarrow> if b > 32 then PrefixZero
              else PrefixFrom (a\<lparr>addr := addr a AND mask6 (nat b + 96)\<rparr>) b
      | z6 zn \<Rightarrow> if b > 128 then PrefixZero
              else PrefixFrom (a\<lparr>addr := addr a AND mask6 (nat b)\<rparr>) b)"

definition Masked :: "Prefix \<Rightarrow> Prefix" where
  "Masked p = Addr_Prefix (ip p) (Bits p)"

section \<open>Ranges and sets (package go4.org/netipx)\<close>

record IPRange =
  r_from :: Addr
  r_to :: Addr

definition IPRangeZero :: IPRange where
  "IPRangeZero = \<lparr>r_from = AddrZero, r_to = AddrZero\<rparr>"

definition IPRange_IsValid :: "IPRange \<Rightarrow> bool" where
  "IPRange_IsValid r =
     (Addr_IsValid (r_from r) \<and> BitLen (r_from r) = BitLen (r_to r)
      \<and> Zone (r_from r) = Zone (r_to r) \<and> \<not> Less (r_to r) (r_from r))"

text \<open>
  \<^verbatim>\<open>PrefixLastIP\<close> sets every bit after the prefix length, within the family's
  width.
\<close>

definition PrefixLastIP :: "Prefix \<Rightarrow> Addr" where
  "PrefixLastIP p =
     (if \<not> Prefix_IsValid p then AddrZero
      else \<lparr>addr = addr (ip p) OR mask (BitLen (ip p) - nat (Bits p)),
            z = (if Is4 (ip p) then z4 else z6 [])\<rparr>)"

definition RangeOfPrefix :: "Prefix \<Rightarrow> IPRange" where
  "RangeOfPrefix p =
     (let m = Masked p in
      if \<not> Prefix_IsValid m then IPRangeZero
      else \<lparr>r_from = ip m, r_to = PrefixLastIP m\<rparr>)"

text \<open>
  \<^verbatim>\<open>IPRange.less\<close>, the order \<^verbatim>\<open>mergeIPRanges\<close> sorts by: by lower bound, and
  among equal lower bounds the larger range first.
\<close>

definition IPRange_less :: "IPRange \<Rightarrow> IPRange \<Rightarrow> bool" where
  "IPRange_less r other =
     (if Compare (r_from r) (r_from other) \<noteq> 0 then Compare (r_from r) (r_from other) < 0
      else Less (r_to other) (r_to r))"

text \<open>
  \<^verbatim>\<open>sort.Slice(rr, less)\<close>. Two ranges that neither precede the other under
  \<^verbatim>\<open>less\<close> are equal, so every correct sort returns the same slice; the model
  sorts by insertion.
\<close>

fun sortSlice_insert :: "IPRange \<Rightarrow> IPRange list \<Rightarrow> IPRange list" where
  "sortSlice_insert r [] = [r]"
| "sortSlice_insert r (x # xs) =
     (if IPRange_less x r then x # sortSlice_insert r xs else r # x # xs)"

fun sortSlice :: "IPRange list \<Rightarrow> IPRange list" where
  "sortSlice [] = []"
| "sortSlice (r # rs) = sortSlice_insert r (sortSlice rs)"

text \<open>
  The loop of \<^verbatim>\<open>mergeIPRanges\<close> over the sorted slice. The Go slice \<^verbatim>\<open>out\<close> is
  \<open>done @ [prev]\<close>: \<^verbatim>\<open>prev\<close> points at its last element and is updated in place.
  \<open>None\<close> is the result \<^verbatim>\<open>(nil, false)\<close>.
\<close>

fun mergeIPRanges_loop :: "IPRange list \<Rightarrow> IPRange \<Rightarrow> IPRange list \<Rightarrow> IPRange list option" where
  "mergeIPRanges_loop done prev [] = Some (done @ [prev])"
| "mergeIPRanges_loop done prev (r # rs) =
     (if \<not> IPRange_IsValid r then None
      else if Next (r_to prev) = r_from r then mergeIPRanges_loop done (prev\<lparr>r_to := r_to r\<rparr>) rs
      else if Less (r_to prev) (r_from r) then mergeIPRanges_loop (done @ [prev]) r rs
      else if Less (r_to prev) (r_to r) then mergeIPRanges_loop done (prev\<lparr>r_to := r_to r\<rparr>) rs
      else mergeIPRanges_loop done prev rs)"

definition mergeIPRanges :: "IPRange list \<Rightarrow> IPRange list option" where
  "mergeIPRanges rr =
     (case rr of
        [] \<Rightarrow> Some []
      | [r] \<Rightarrow> Some [r]
      | _ \<Rightarrow> (case sortSlice rr of
                [] \<Rightarrow> Some []
              | r # rs \<Rightarrow> mergeIPRanges_loop [] r rs))"

text \<open>
  \<^verbatim>\<open>IPSetBuilder\<close>. This program only adds to a builder and never removes, so the
  removal list \<^verbatim>\<open>out\<close> of the Go struct stays empty and \<^verbatim>\<open>normalize\<close> is
  \<^verbatim>\<open>mergeIPRanges\<close> on the additions; the record keeps the additions and the
  accumulated errors.
\<close>

record IPSetBuilder =
  in_ranges :: "IPRange list"
  errs :: "string list"

definition newIPSetBuilder :: IPSetBuilder where
  "newIPSetBuilder = \<lparr>in_ranges = [], errs = []\<rparr>"

definition AddRange :: "IPSetBuilder \<Rightarrow> IPRange \<Rightarrow> IPSetBuilder" where
  "AddRange s r =
     (if \<not> IPRange_IsValid r then s\<lparr>errs := errs s @ [''AddRange'']\<rparr>
      else s\<lparr>in_ranges := in_ranges s @ [r]\<rparr>)"

definition AddPrefix :: "IPSetBuilder \<Rightarrow> Prefix \<Rightarrow> IPSetBuilder" where
  "AddPrefix s p =
     (if IPRange_IsValid (RangeOfPrefix p) then AddRange s (RangeOfPrefix p)
      else s\<lparr>errs := errs s @ [''AddPrefix'']\<rparr>)"

definition normalize :: "IPSetBuilder \<Rightarrow> IPSetBuilder" where
  "normalize s = (case mergeIPRanges (in_ranges s) of None \<Rightarrow> s | Some m \<Rightarrow> s\<lparr>in_ranges := m\<rparr>)"

text \<open>\<^verbatim>\<open>IPSet()\<close> returns the set (its sorted ranges \<^verbatim>\<open>rr\<close>) and the errors.\<close>

definition IPSet :: "IPSetBuilder \<Rightarrow> IPRange list \<times> string list" where
  "IPSet s = (in_ranges (normalize s), errs s)"

subsection \<open>From a range back to prefixes\<close>

text \<open>\<^verbatim>\<open>bits.Len\<close>: the number of bits needed to write a number.\<close>

fun Len :: "nat \<Rightarrow> nat" where
  "Len n = (if n = 0 then 0 else Suc (Len (n div 2)))"

declare Len.simps [simp del]

text \<open>\<^verbatim>\<open>commonPrefixLen\<close>: the leading zeros of the exclusive or.\<close>

definition commonPrefixLen :: "uint128 \<Rightarrow> uint128 \<Rightarrow> nat" where
  "commonPrefixLen u v = 128 - Len (unat (u XOR v))"

definition bitsSetFrom :: "uint128 \<Rightarrow> nat \<Rightarrow> uint128" where
  "bitsSetFrom u n = u OR NOT (mask6 n)"

definition bitsClearedFrom :: "uint128 \<Rightarrow> nat \<Rightarrow> uint128" where
  "bitsClearedFrom u n = u AND mask6 n"

text \<open>
  \<^verbatim>\<open>comparePrefixes\<close>: the common length, and whether after it \<open>a\<close> is all
  zeros and \<open>b\<close> all ones.
\<close>

definition comparePrefixes :: "uint128 \<Rightarrow> uint128 \<Rightarrow> nat \<times> bool" where
  "comparePrefixes a b =
     (let common = commonPrefixLen a b in
      if common = 128 then (common, True)
      else (common, a XOR (a AND mask6 common) = 0 \<and> b OR mask6 common = - 1))"

text \<open>
  \<^verbatim>\<open>prefixFrom128AndBits\<close>: for an IPv4 range the length loses the 96 bits of
  the mapping (in \<^verbatim>\<open>uint8\<close> arithmetic) and the address is rebuilt from the
  low four bytes.
\<close>

definition prefixFrom128AndBits :: "IPRange \<Rightarrow> uint128 \<Rightarrow> nat \<Rightarrow> Prefix" where
  "prefixFrom128AndBits r a bits =
     (if Is4 (r_from r)
      then PrefixFrom \<lparr>addr = 0xffff00000000 OR (a AND mask 32), z = z4\<rparr>
             (int ((bits + 256 - 96) mod 256))
      else PrefixFrom \<lparr>addr = a, z = z6 []\<rparr> (int bits))"

text \<open>Facts about the common length that the recursion below rests on.\<close>

lemma Len_le_iff: "Len n \<le> k \<longleftrightarrow> n < 2 ^ k"
proof (induction n arbitrary: k rule: Len.induct)
  case (1 n)
  show ?case
  proof (cases "n = 0")
    case True
    then show ?thesis by (simp add: Len.simps)
  next
    case False
    show ?thesis
    proof (cases k)
      case 0
      with False show ?thesis by (simp add: Len.simps)
    next
      case (Suc k')
      have "Len n \<le> Suc k' \<longleftrightarrow> Len (n div 2) \<le> k'"
        using False by (subst Len.simps) simp
      also have "\<dots> \<longleftrightarrow> n div 2 < 2 ^ k'"
        using 1 False by simp
      also have "\<dots> \<longleftrightarrow> n < 2 ^ Suc k'"
        by (simp add: less_mult_imp_div_less div_less_iff_less_mult mult.commute)
      finally show ?thesis using Suc by simp
    qed
  qed
qed

lemma commonPrefixLen_le: "commonPrefixLen u v \<le> 128"
  by (simp add: commonPrefixLen_def)

lemma commonPrefixLen_geI:
  assumes "unat (u XOR v) < 2 ^ (128 - c)" and "c \<le> 128"
  shows "c \<le> commonPrefixLen u v"
  using assms Len_le_iff[of "unat (u XOR v)" "128 - c"] unfolding commonPrefixLen_def by linarith

lemma xor_bitsSetFrom: "a XOR bitsSetFrom a n = NOT a AND mask (128 - n)"
  unfolding bitsSetFrom_def mask6_def
  by (rule bit_eqI) (auto simp add: bit_simps)

lemma xor_bitsClearedFrom: "bitsClearedFrom b n XOR b = b AND mask (128 - n)"
  unfolding bitsClearedFrom_def mask6_def
  by (rule bit_eqI) (auto simp add: bit_simps)

lemma unat_and_mask_less: "unat ((w :: uint128) AND mask k) < 2 ^ k"
  by (metis and_mask_lt_2p of_nat_less_numeral_power_cancel_iff of_nat_unat)

lemma fst_comparePrefixes [simp]: "fst (comparePrefixes a b) = commonPrefixLen a b"
  by (simp add: comparePrefixes_def Let_def)

lemma not_ok_common_less: "\<not> snd (comparePrefixes a b) \<Longrightarrow> commonPrefixLen a b < 128"
  using commonPrefixLen_le[of a b] by (auto simp add: comparePrefixes_def Let_def split: if_splits)

lemma commonPrefixLen_bitsSetFrom:
  assumes "n \<le> 128"
  shows "n \<le> commonPrefixLen a (bitsSetFrom a n)"
  by (rule commonPrefixLen_geI) (simp_all add: xor_bitsSetFrom unat_and_mask_less assms)

lemma commonPrefixLen_bitsClearedFrom:
  assumes "n \<le> 128"
  shows "n \<le> commonPrefixLen (bitsClearedFrom b n) b"
  by (rule commonPrefixLen_geI) (simp_all add: xor_bitsClearedFrom unat_and_mask_less assms)

text \<open>
  \<^verbatim>\<open>appendRangePrefixes\<close>: a whole block is one prefix; otherwise the range is
  cut where the first differing bit flips and both halves are decomposed. The
  function returns what the Go code appends to \<^verbatim>\<open>dst\<close>; the type of what
  \<^verbatim>\<open>makePrefix\<close> builds is left open.
\<close>

function appendRangePrefixes :: "(uint128 \<Rightarrow> nat \<Rightarrow> 'p) \<Rightarrow> uint128 \<Rightarrow> uint128 \<Rightarrow> 'p list" where
  "appendRangePrefixes makePrefix a b =
     (if snd (comparePrefixes a b) then [makePrefix a (fst (comparePrefixes a b))]
      else appendRangePrefixes makePrefix a (bitsSetFrom a (fst (comparePrefixes a b) + 1))
         @ appendRangePrefixes makePrefix (bitsClearedFrom b (fst (comparePrefixes a b) + 1)) b)"
  by pat_completeness auto

termination appendRangePrefixes
proof (relation "measure (\<lambda>(mk, a, b). 128 - commonPrefixLen a b)")
  show "wf (measure (\<lambda>(mk, a, b). 128 - commonPrefixLen a b))" by simp
next
  fix makePrefix :: "uint128 \<Rightarrow> nat \<Rightarrow> 'p" and a b :: uint128
  assume "\<not> snd (comparePrefixes a b)"
  then have c: "commonPrefixLen a b < 128" by (rule not_ok_common_less)
  then have "commonPrefixLen a b + 1 \<le> commonPrefixLen a (bitsSetFrom a (commonPrefixLen a b + 1))"
    by (intro commonPrefixLen_bitsSetFrom) simp
  with c show "((makePrefix, a, bitsSetFrom a (fst (comparePrefixes a b) + 1)), makePrefix, a, b)
      \<in> measure (\<lambda>(mk, a, b). 128 - commonPrefixLen a b)"
    by simp
next
  fix makePrefix :: "uint128 \<Rightarrow> nat \<Rightarrow> 'p" and a b :: uint128
  assume "\<not> snd (comparePrefixes a b)"
  then have c: "commonPrefixLen a b < 128" by (rule not_ok_common_less)
  then have "commonPrefixLen a b + 1 \<le> commonPrefixLen (bitsClearedFrom b (commonPrefixLen a b + 1)) b"
    by (intro commonPrefixLen_bitsClearedFrom) simp
  with c show "((makePrefix, bitsClearedFrom b (fst (comparePrefixes a b) + 1), b), makePrefix, a, b)
      \<in> measure (\<lambda>(mk, a, b). 128 - commonPrefixLen a b)"
    by simp
qed

declare appendRangePrefixes.simps [simp del]

text \<open>
  \<^verbatim>\<open>IPRange.Prefixes\<close> (through \<^verbatim>\<open>AppendPrefixes(nil)\<close>) works on the 128-bit
  numbers of the two bounds; \<^verbatim>\<open>IPSet.Prefixes\<close> concatenates over the ranges of
  the set.
\<close>

definition IPRange_Prefixes :: "IPRange \<Rightarrow> Prefix list" where
  "IPRange_Prefixes r =
     (if \<not> IPRange_IsValid r then []
      else appendRangePrefixes (prefixFrom128AndBits r) (addr (r_from r)) (addr (r_to r)))"

definition IPSet_Prefixes :: "IPRange list \<Rightarrow> Prefix list" where
  "IPSet_Prefixes rr = concat (map IPRange_Prefixes rr)"

section \<open>Text\<close>

subsection \<open>Printing a prefix\<close>

definition digitChar :: "nat \<Rightarrow> char" where
  "digitChar d = char_of (48 + d)"

text \<open>\<^verbatim>\<open>appendDecimal\<close> of one octet.\<close>

definition appendDecimal :: "nat \<Rightarrow> string" where
  "appendDecimal x =
     (if x \<ge> 100 then [digitChar (x div 100)] else [])
     @ (if x \<ge> 10 then [digitChar (x div 10 mod 10)] else [])
     @ [digitChar (x mod 10)]"

definition v4 :: "Addr \<Rightarrow> nat \<Rightarrow> nat" where
  "v4 a i = unat (drop_bit ((3 - i) * 8) (addr a) AND mask 8)"

definition string4 :: "Addr \<Rightarrow> string" where
  "string4 a = appendDecimal (v4 a 0) @ ''.'' @ appendDecimal (v4 a 1) @ ''.''
     @ appendDecimal (v4 a 2) @ ''.'' @ appendDecimal (v4 a 3)"

text \<open>IPv6 text: hexadecimal groups, the longest run of two or more zero groups
  written as \<^verbatim>\<open>::\<close>.\<close>

definition hexDigit :: "nat \<Rightarrow> char" where
  "hexDigit d = (if d < 10 then char_of (48 + d) else char_of (87 + d))"

definition appendHex :: "nat \<Rightarrow> string" where
  "appendHex x =
     (if x \<ge> 0x1000 then [hexDigit (x div 0x1000)] else [])
     @ (if x \<ge> 0x100 then [hexDigit (x div 0x100 mod 16)] else [])
     @ (if x \<ge> 0x10 then [hexDigit (x div 0x10 mod 16)] else [])
     @ [hexDigit (x mod 16)]"

definition v6u16 :: "Addr \<Rightarrow> nat \<Rightarrow> nat" where
  "v6u16 a i = unat (drop_bit ((7 - i) * 16) (addr a) AND mask 16)"

definition zeroRun :: "Addr \<Rightarrow> nat \<times> nat" where
  "zeroRun a =
     foldl (\<lambda>(zeroStart, zeroEnd) i.
              let l = length (takeWhile (\<lambda>j. v6u16 a j = 0) [i..<8]) in
              if l \<ge> 2 \<and> l > zeroEnd - zeroStart then (i, i + l) else (zeroStart, zeroEnd))
           (255, 255) [0..<8]"

function appendTo6_loop :: "Addr \<Rightarrow> nat \<Rightarrow> string" where
  "appendTo6_loop a i =
     (if \<not> i < 8 then []
      else if i = fst (zeroRun a) then
        (if snd (zeroRun a) \<ge> 8 then ''::''
         else ''::'' @ appendHex (v6u16 a (snd (zeroRun a))) @ appendTo6_loop a (snd (zeroRun a) + 1))
      else (if i > 0 then '':'' else []) @ appendHex (v6u16 a i) @ appendTo6_loop a (i + 1))"
  by pat_completeness auto

lemma foldl_invariant:
  assumes "P s" and "\<And>s x. P s \<Longrightarrow> P (f s x)"
  shows "P (foldl f s xs)"
  using assms(1) by (induction xs arbitrary: s) (auto intro: assms(2))

lemma zeroRun_less: "fst (zeroRun a) = 255 \<or> fst (zeroRun a) < snd (zeroRun a)"
  unfolding zeroRun_def
  by (rule foldl_invariant) (auto simp add: Let_def split: prod.splits if_splits)

termination appendTo6_loop
proof (relation "measure (\<lambda>(a, i). 8 - i)")
  show "wf (measure (\<lambda>(a, i). 8 - i))" by simp
next
  fix a :: Addr and i :: nat
  assume "\<not> \<not> i < 8" and "i = fst (zeroRun a)" and "\<not> 8 \<le> snd (zeroRun a)"
  then show "((a, snd (zeroRun a) + 1), a, i) \<in> measure (\<lambda>(a, i). 8 - i)"
    using zeroRun_less[of a] by auto
next
  fix a :: Addr and i :: nat
  assume "\<not> \<not> i < 8"
  then show "((a, i + 1), a, i) \<in> measure (\<lambda>(a, i). 8 - i)" by auto
qed

declare appendTo6_loop.simps [simp del]

definition Is4In6 :: "Addr \<Rightarrow> bool" where
  "Is4In6 a = (Is6 a \<and> drop_bit 32 (addr a) = 0xffff)"

definition Addr_String :: "Addr \<Rightarrow> string" where
  "Addr_String a =
     (case z a of
        z0 \<Rightarrow> []
      | z4 \<Rightarrow> string4 a
      | z6 zn \<Rightarrow>
          (if Is4In6 a then ''::ffff:'' @ string4 a else appendTo6_loop a 0)
          @ (if zn \<noteq> [] then ''%'' @ zn else []))"

text \<open>\<^verbatim>\<open>itoa.Itoa\<close>: decimal digits, a minus sign for a negative number.\<close>

fun Uitoa :: "nat \<Rightarrow> string" where
  "Uitoa n = (if n < 10 then [digitChar n] else Uitoa (n div 10) @ [digitChar (n mod 10)])"

declare Uitoa.simps [simp del]

definition Itoa :: "int \<Rightarrow> string" where
  "Itoa v = (if v < 0 then ''-'' @ Uitoa (nat (- v)) else Uitoa (nat v))"

definition Prefix_String :: "Prefix \<Rightarrow> string" where
  "Prefix_String p =
     (if \<not> Prefix_IsValid p then ''invalid Prefix''
      else Addr_String (ip p) @ ''/'' @ Itoa (Bits p))"

subsection \<open>Trimming a line\<close>

text \<open>
  \<^verbatim>\<open>strings.TrimSpace\<close> removes the leading and trailing white space of a
  string: the six ASCII space bytes and the Unicode spaces U+0085, U+00A0, U+1680,
  U+2000 to U+200A, U+2028, U+2029, U+202F, U+205F and U+3000 in their UTF-8
  encodings. A byte sequence that is not one of these encodings decodes to a rune
  that is not a space, so trimming is removing these encodings from both ends.
\<close>

definition spaceRunes :: "nat list list" where
  "spaceRunes =
     [[0x09], [0x0A], [0x0B], [0x0C], [0x0D], [0x20], [0xC2, 0x85], [0xC2, 0xA0],
      [0xE1, 0x9A, 0x80]]
     @ map (\<lambda>b. [0xE2, 0x80, b]) [0x80..<0x8B]
     @ [[0xE2, 0x80, 0xA8], [0xE2, 0x80, 0xA9], [0xE2, 0x80, 0xAF], [0xE2, 0x81, 0x9F],
        [0xE3, 0x80, 0x80]]"

definition spaceLen :: "nat list list \<Rightarrow> string \<Rightarrow> nat" where
  "spaceLen encs s =
     (case find (\<lambda>e. take (length e) (map of_char s) = e) encs of
        None \<Rightarrow> 0
      | Some e \<Rightarrow> length e)"

function trimLeading :: "nat list list \<Rightarrow> string \<Rightarrow> string" where
  "trimLeading encs s =
     (if spaceLen encs s = 0 \<or> s = [] then s
      else trimLeading encs (drop (spaceLen encs s) s))"
  by pat_completeness auto
termination
  by (relation "measure (\<lambda>(encs, s). length s)") auto

declare trimLeading.simps [simp del]

definition TrimSpace :: "string \<Rightarrow> string" where
  "TrimSpace s = rev (trimLeading (map rev spaceRunes) (rev (trimLeading spaceRunes s)))"

section \<open>The program\<close>

record subnetAS =
  subnet :: string
  as :: string

datatype ioError = IOError string

text \<open>
  \<^verbatim>\<open>log.Printf("Invalid subnet: %s", ...)\<close> writes one entry to the process
  log; the functions below return the entries they write, in order, next to
  their Go result. A Go result \<^verbatim>\<open>(prefixes, nil)\<close> is \<open>Inr prefixes\<close>, a
  result \<^verbatim>\<open>(nil, err)\<close> is \<open>Inl err\<close>.
\<close>

definition invalidSubnet :: "string \<Rightarrow> string" where
  "invalidSubnet s = ''Invalid subnet: '' @ s"

fun processSubnets_loop ::
  "string \<Rightarrow> subnetAS list \<Rightarrow> IPSetBuilder \<times> string list \<Rightarrow> IPSetBuilder \<times> string list" where
  "processSubnets_loop targetAS [] (v4Set, lg) = (v4Set, lg)"
| "processSubnets_loop targetAS (item # rest) (v4Set, lg) =
     processSubnets_loop targetAS rest
       (if as item = targetAS then
          (case ParsePrefix (subnet item) of
             Inl err \<Rightarrow> (v4Set, lg @ [invalidSubnet (subnet item)])
           | Inr prefix \<Rightarrow>
               if Is4 (ip prefix) then (AddPrefix v4Set prefix, lg) else (v4Set, lg))
        else (v4Set, lg))"

definition processSubnets ::
  "subnetAS list \<Rightarrow> string \<Rightarrow> (ioError + Prefix list) \<times> string list" where
  "processSubnets subnets targetAS =
     (let (v4Set, lg) = processSubnets_loop targetAS subnets (newIPSetBuilder, []);
          (v4IPSet, _) = IPSet v4Set
      in (Inr (IPSet_Prefixes v4IPSet), lg))"

text \<open>
  The two readers download a body and scan it line by line. The download and the
  \<^verbatim>\<open>bufio.Scanner\<close> are input: a reader is given either the download's error
  or what the scanner produced, the successive values of \<^verbatim>\<open>scanner.Text()\<close>
  and the final \<^verbatim>\<open>scanner.Err()\<close>. Both readers run the same loop body.
\<close>

record scanned =
  texts :: "string list"
  scanErr :: "ioError option"

fun scanSubnets_loop ::
  "string list \<Rightarrow> IPSetBuilder \<times> string list \<Rightarrow> IPSetBuilder \<times> string list" where
  "scanSubnets_loop [] (v4Set, lg) = (v4Set, lg)"
| "scanSubnets_loop (text # rest) (v4Set, lg) =
     scanSubnets_loop rest
       (let line = TrimSpace text in
        if line = [] then (v4Set, lg)
        else case ParsePrefix line of
               Inl err \<Rightarrow> (v4Set, lg @ [invalidSubnet line])
             | Inr prefix \<Rightarrow>
                 if Is4 (ip prefix) then (AddPrefix v4Set prefix, lg) else (v4Set, lg))"

definition downloadReadySubnets ::
  "ioError + scanned \<Rightarrow> (ioError + Prefix list) \<times> string list" where
  "downloadReadySubnets fetched =
     (case fetched of
        Inl err \<Rightarrow> (Inl err, [])
      | Inr sc \<Rightarrow>
          let (v4Set, lg) = scanSubnets_loop (texts sc) (newIPSetBuilder, []);
              (v4IPSet, _) = IPSet v4Set
          in (Inr (IPSet_Prefixes v4IPSet), lg))"

definition downloadReadySplitSubnets ::
  "ioError + scanned \<Rightarrow> (ioError + Prefix list) \<times> string list" where
  "downloadReadySplitSubnets fetched =
     (case fetched of
        Inl err \<Rightarrow> (Inl err, [])
      | Inr sc \<Rightarrow>
          let (v4Set, lg) = scanSubnets_loop (texts sc) (newIPSetBuilder, []) in
          case scanErr sc of
            Some err \<Rightarrow> (Inl err, lg)
          | None \<Rightarrow> (let (v4IPSet, _) = IPSet v4Set in (Inr (IPSet_Prefixes v4IPSet), lg)))"

text \<open>\<^verbatim>\<open>writeSubnetsToFile\<close>: the bytes written, one prefix per line.\<close>

definition writeSubnetsToFile :: "Prefix list \<Rightarrow> string" where
  "writeSubnetsToFile prefixes = concat (map (\<lambda>prefix. Prefix_String prefix @ [CHR 0x0A]) prefixes)"

section \<open>The parser\<close>

lemma parseIPv4Fields_loop_chars:
  "parseIPv4Fields_loop prev val digLen fs s = Inr r \<Longrightarrow> c \<in> set s \<Longrightarrow> isDigit c \<or> c = CHR ''.''"
  by (induction s arbitrary: prev val digLen fs) (auto split: if_splits)

lemma parseIPv4_chars:
  "parseIPv4 s = Inr a \<Longrightarrow> c \<in> set s \<Longrightarrow> isDigit c \<or> c = CHR ''.''"
  unfolding parseIPv4_def parseIPv4Fields_def
  by (auto split: sum.splits dest: parseIPv4Fields_loop_chars)

lemma parseIPv6_not4: "parseIPv6 s = Inr a \<Longrightarrow> \<not> Is4 a"
  unfolding parseIPv6_def
  by (auto simp add: Let_def WithZone_def AddrFrom16_def Is4_def Is6_def
      split: prod.splits if_splits sum.splits option.splits)

lemma ParseAddr_scan_v4:
  "ParseAddr_scan s t = Inr a \<Longrightarrow> Is4 a \<Longrightarrow> parseIPv4 s = Inr a"
  by (induction t) (auto split: if_splits dest: parseIPv6_not4)

lemma ParseAddr_v4: "ParseAddr s = Inr a \<Longrightarrow> Is4 a \<Longrightarrow> parseIPv4 s = Inr a"
  unfolding ParseAddr_def by (rule ParseAddr_scan_v4)

lemma bare_v4_no_slash: "ParseAddr s = Inr a \<Longrightarrow> Is4 a \<Longrightarrow> CHR ''/'' \<notin> set s"
  using parseIPv4_chars[OF ParseAddr_v4, of s a "CHR ''/''"] by (auto simp add: isDigit_def)

lemma IPSet_new: "IPSet newIPSetBuilder = ([], [])"
  by (simp add: IPSet_def normalize_def newIPSetBuilder_def mergeIPRanges_def)

section \<open>What the loops compute\<close>

definition v4prefixes :: "string list \<Rightarrow> Prefix list" where
  "v4prefixes ss =
     concat (map (\<lambda>s. case ParsePrefix s of
                          Inl e \<Rightarrow> []
                        | Inr p \<Rightarrow> if Is4 (ip p) then [p] else []) ss)"

definition rejected :: "string list \<Rightarrow> string list" where
  "rejected ss = filter (\<lambda>s. isl (ParsePrefix s)) ss"

definition candidates :: "string \<Rightarrow> subnetAS list \<Rightarrow> string list" where
  "candidates targetAS subnets = map subnet (filter (\<lambda>item. as item = targetAS) subnets)"

definition trimmedLines :: "string list \<Rightarrow> string list" where
  "trimmedLines txts = filter (\<lambda>line. line \<noteq> []) (map TrimSpace txts)"

lemma v4prefixes_append [simp]: "v4prefixes (xs @ ys) = v4prefixes xs @ v4prefixes ys"
  by (simp add: v4prefixes_def)

lemma rejected_append [simp]: "rejected (xs @ ys) = rejected xs @ rejected ys"
  by (simp add: rejected_def)

lemma candidates_append [simp]: "candidates t (xs @ ys) = candidates t xs @ candidates t ys"
  by (simp add: candidates_def)

lemma trimmedLines_append [simp]: "trimmedLines (xs @ ys) = trimmedLines xs @ trimmedLines ys"
  by (simp add: trimmedLines_def)

lemma processSubnets_loop_eq:
  "processSubnets_loop t xs (b, lg) =
     (foldl AddPrefix b (v4prefixes (candidates t xs)),
      lg @ map invalidSubnet (rejected (candidates t xs)))"
  by (induction xs arbitrary: b lg)
     (auto simp add: v4prefixes_def rejected_def candidates_def split: sum.splits)

lemma scanSubnets_loop_eq:
  "scanSubnets_loop txts (b, lg) =
     (foldl AddPrefix b (v4prefixes (trimmedLines txts)),
      lg @ map invalidSubnet (rejected (trimmedLines txts)))"
  by (induction txts arbitrary: b lg)
     (auto simp add: v4prefixes_def rejected_def trimmedLines_def Let_def split: sum.splits)

definition setPrefixes :: "Prefix list \<Rightarrow> Prefix list" where
  "setPrefixes ps = IPSet_Prefixes (fst (IPSet (foldl AddPrefix newIPSetBuilder ps)))"

lemma processSubnets_eq:
  "processSubnets subnets t =
     (Inr (setPrefixes (v4prefixes (candidates t subnets))),
      map invalidSubnet (rejected (candidates t subnets)))"
  by (simp add: processSubnets_def processSubnets_loop_eq setPrefixes_def split: prod.splits)

lemma downloadReadySubnets_eq:
  "downloadReadySubnets (Inr sc) =
     (Inr (setPrefixes (v4prefixes (trimmedLines (texts sc)))),
      map invalidSubnet (rejected (trimmedLines (texts sc))))"
  by (simp add: downloadReadySubnets_def scanSubnets_loop_eq setPrefixes_def split: prod.splits)

lemma downloadReadySplitSubnets_eq:
  "downloadReadySplitSubnets (Inr sc) =
     ((case scanErr sc of
         Some err \<Rightarrow> Inl err
       | None \<Rightarrow> Inr (setPrefixes (v4prefixes (trimmedLines (texts sc))))),
      map invalidSubnet (rejected (trimmedLines (texts sc))))"
  by (simp add: downloadReadySplitSubnets_def scanSubnets_loop_eq setPrefixes_def
      split: prod.splits option.splits)

section \<open>Lines that trimming leaves alone\<close>

lemma spaceRunes_ends:
  "list_all (\<lambda>e. e \<noteq> [] \<and> \<not> (48 \<le> hd e \<and> hd e \<le> 57) \<and> \<not> (48 \<le> last e \<and> last e \<le> 57)) spaceRunes"
  by code_simp

lemma spaceLen_digit:
  assumes "s \<noteq> []" and "isDigit (hd s)"
    and "list_all (\<lambda>e. e \<noteq> [] \<and> \<not> (48 \<le> hd e \<and> hd e \<le> 57)) encs"
  shows "spaceLen encs s = 0"
proof -
  have "\<not> (take (length e) (map of_char s) = e)" if "e \<in> set encs" for e
  proof
    assume eq: "take (length e) (map of_char s) = e"
    from that assms(3) have e: "e \<noteq> []" "\<not> (48 \<le> hd e \<and> hd e \<le> 57)"
      by (auto simp add: list_all_iff)
    from eq e(1) assms(1) have "hd e = (of_char (hd s) :: nat)"
      by (cases s; cases e) auto
    with e(2) assms(2) show False by (simp add: isDigit_def)
  qed
  then have "find (\<lambda>e. take (length e) (map of_char s) = e) encs = None"
    by (simp add: find_None_iff)
  then show ?thesis by (simp add: spaceLen_def)
qed

lemma trimLeading_digit:
  assumes "s \<noteq> []" and "isDigit (hd s)"
    and "list_all (\<lambda>e. e \<noteq> [] \<and> \<not> (48 \<le> hd e \<and> hd e \<le> 57)) encs"
  shows "trimLeading encs s = s"
  using spaceLen_digit[OF assms] by (subst trimLeading.simps) simp

lemma TrimSpace_digits:
  assumes "s \<noteq> []" and "isDigit (hd s)" and "isDigit (last s)"
  shows "TrimSpace s = s"
proof -
  have l: "list_all (\<lambda>e. e \<noteq> [] \<and> \<not> (48 \<le> hd e \<and> hd e \<le> 57)) spaceRunes"
    using spaceRunes_ends by (simp add: list_all_iff)
  have r: "list_all (\<lambda>e. e \<noteq> [] \<and> \<not> (48 \<le> hd e \<and> hd e \<le> 57)) (map rev spaceRunes)"
    using spaceRunes_ends by (simp add: list_all_iff hd_rev)
  have "trimLeading spaceRunes s = s"
    by (rule trimLeading_digit[OF assms(1,2) l])
  moreover have "trimLeading (map rev spaceRunes) (rev s) = rev s"
    using assms by (intro trimLeading_digit[OF _ _ r]) (simp_all add: hd_rev)
  ultimately show ?thesis by (simp add: TrimSpace_def)
qed

lemma parseIPv4Fields_loop_ends:
  "parseIPv4Fields_loop prev val digLen fs s = Inr r \<Longrightarrow>
     (prev = None \<and> length fs < 3 \<longrightarrow> s \<noteq> [] \<and> isDigit (hd s)) \<and> (s \<noteq> [] \<longrightarrow> isDigit (last s))"
  by (induction s arbitrary: prev val digLen fs) (auto split: if_splits)

lemma parseIPv4_ends:
  "parseIPv4 s = Inr a \<Longrightarrow> s \<noteq> [] \<and> isDigit (hd s) \<and> isDigit (last s)"
  unfolding parseIPv4_def parseIPv4Fields_def
  by (auto split: sum.splits dest: parseIPv4Fields_loop_ends)

lemma TrimSpace_bare: "ParseAddr s = Inr a \<Longrightarrow> Is4 a \<Longrightarrow> TrimSpace s = s"
  using parseIPv4_ends[OF ParseAddr_v4] by (simp add: TrimSpace_digits)

lemma bare_not_empty: "ParseAddr s = Inr a \<Longrightarrow> s \<noteq> []"
  by (auto simp add: ParseAddr_def)

lemma candidates_Cons [simp]:
  "candidates t (item # xs) = (if as item = t then subnet item # candidates t xs else candidates t xs)"
  by (simp add: candidates_def)

lemma trimmedLines_Cons [simp]:
  "trimmedLines (text # xs) =
     (if TrimSpace text = [] then trimmedLines xs else TrimSpace text # trimmedLines xs)"
  by (simp add: trimmedLines_def)

lemma v4prefixes_Cons [simp]:
  "v4prefixes (s # ss) =
     (case ParsePrefix s of Inl e \<Rightarrow> [] | Inr p \<Rightarrow> if Is4 (ip p) then [p] else []) @ v4prefixes ss"
  by (simp add: v4prefixes_def)

lemma rejected_Cons [simp]:
  "rejected (s # ss) = (if isl (ParsePrefix s) then s # rejected ss else rejected ss)"
  by (simp add: rejected_def)

lemma candidates_Nil [simp]: "candidates t [] = []"
  by (simp add: candidates_def)

lemma trimmedLines_Nil [simp]: "trimmedLines [] = []"
  by (simp add: trimmedLines_def)

lemma v4prefixes_Nil [simp]: "v4prefixes [] = []"
  by (simp add: v4prefixes_def)

lemma rejected_Nil [simp]: "rejected [] = []"
  by (simp add: rejected_def)

text \<open>
  Claim C5 says that a line holding a bare IPv4 address, with no \<^verbatim>\<open>/n\<close>, parses as
  the /32 prefix of that address. The code parses every line with
  \<^verbatim>\<open>netip.ParsePrefix\<close>, which demands the slash. As amended: let \<open>s\<close> be any
  string that \<^verbatim>\<open>ParseAddr\<close> reads as an IPv4 address, and \<open>text\<close> any scanned
  line that trims to \<open>s\<close> (trimming leaves \<open>s\<close> itself alone). Then
  \<^verbatim>\<open>ParsePrefix\<close> fails on \<open>s\<close> for want of a slash. In the loop of
  \<^verbatim>\<open>processSubnets\<close>, whatever the builder, the log and the entries that follow,
  an entry with subnet \<open>s\<close> leaves the builder as it is and the loop goes on with
  the remaining entries; it appends the log entry \<^verbatim>\<open>Invalid subnet: s\<close> when the
  entry's AS is the target and nothing otherwise. The loop of the readers does the
  same at \<open>text\<close>. Hence, wherever the line stands in the input, each of
  \<^verbatim>\<open>processSubnets\<close>, \<^verbatim>\<open>downloadReadySubnets\<close> and
  \<^verbatim>\<open>downloadReadySplitSubnets\<close> returns what it returns without the line, and
  logs what it logs for the lines before, then \<^verbatim>\<open>Invalid subnet: s\<close>, then what it
  logs for the lines after.
\<close>

theorem bare_address_rejected:
  assumes "ParseAddr s = Inr a" and "Is4 a" and "TrimSpace text = s"
  shows "ParsePrefix s = Inl NoSlash
    \<and> TrimSpace s = s
    \<and> processSubnets_loop t (\<lparr>subnet = s, as = asn\<rparr> # rest) (v4Set, lg)
        = processSubnets_loop t rest (v4Set, if asn = t then lg @ [''Invalid subnet: '' @ s] else lg)
    \<and> scanSubnets_loop (text # rest2) (v4Set, lg)
        = scanSubnets_loop rest2 (v4Set, lg @ [''Invalid subnet: '' @ s])
    \<and> processSubnets (xs @ \<lparr>subnet = s, as = t\<rparr> # ys) t
        = (fst (processSubnets (xs @ ys) t),
           snd (processSubnets xs t) @ [''Invalid subnet: '' @ s] @ snd (processSubnets ys t))
    \<and> downloadReadySubnets (Inr \<lparr>texts = ls @ text # ms, scanErr = e\<rparr>)
        = (fst (downloadReadySubnets (Inr \<lparr>texts = ls @ ms, scanErr = e\<rparr>)),
           snd (downloadReadySubnets (Inr \<lparr>texts = ls, scanErr = e\<rparr>))
           @ [''Invalid subnet: '' @ s]
           @ snd (downloadReadySubnets (Inr \<lparr>texts = ms, scanErr = e\<rparr>)))
    \<and> downloadReadySplitSubnets (Inr \<lparr>texts = ls @ text # ms, scanErr = e\<rparr>)
        = (fst (downloadReadySplitSubnets (Inr \<lparr>texts = ls @ ms, scanErr = e\<rparr>)),
           snd (downloadReadySplitSubnets (Inr \<lparr>texts = ls, scanErr = e\<rparr>))
           @ [''Invalid subnet: '' @ s]
           @ snd (downloadReadySplitSubnets (Inr \<lparr>texts = ms, scanErr = e\<rparr>)))"
proof -
  have p: "ParsePrefix s = Inl NoSlash"
    using bare_v4_no_slash[OF assms(1,2)] by (simp add: ParsePrefix_def)
  have ne: "s \<noteq> []" using assms(1) by (rule bare_not_empty)
  have 1: "TrimSpace s = s" using assms(1,2) by (rule TrimSpace_bare)
  have 2: "processSubnets_loop t (\<lparr>subnet = s, as = asn\<rparr> # rest) (v4Set, lg)
        = processSubnets_loop t rest (v4Set, if asn = t then lg @ [''Invalid subnet: '' @ s] else lg)"
    by (simp add: p invalidSubnet_def)
  have 3: "scanSubnets_loop (text # rest2) (v4Set, lg)
        = scanSubnets_loop rest2 (v4Set, lg @ [''Invalid subnet: '' @ s])"
    using ne by (simp add: assms(3) p invalidSubnet_def)
  have 4: "processSubnets (xs @ \<lparr>subnet = s, as = t\<rparr> # ys) t
        = (fst (processSubnets (xs @ ys) t),
           snd (processSubnets xs t) @ [''Invalid subnet: '' @ s] @ snd (processSubnets ys t))"
    by (simp add: processSubnets_eq p invalidSubnet_def)
  have 5: "downloadReadySubnets (Inr \<lparr>texts = ls @ text # ms, scanErr = e\<rparr>)
        = (fst (downloadReadySubnets (Inr \<lparr>texts = ls @ ms, scanErr = e\<rparr>)),
           snd (downloadReadySubnets (Inr \<lparr>texts = ls, scanErr = e\<rparr>))
           @ [''Invalid subnet: '' @ s]
           @ snd (downloadReadySubnets (Inr \<lparr>texts = ms, scanErr = e\<rparr>)))"
    using ne by (simp add: downloadReadySubnets_eq assms(3) p invalidSubnet_def)
  have 6: "downloadReadySplitSubnets (Inr \<lparr>texts = ls @ text # ms, scanErr = e\<rparr>)
        = (fst (downloadReadySplitSubnets (Inr \<lparr>texts = ls @ ms, scanErr = e\<rparr>)),
           snd (downloadReadySplitSubnets (Inr \<lparr>texts = ls, scanErr = e\<rparr>))
           @ [''Invalid subnet: '' @ s]
           @ snd (downloadReadySplitSubnets (Inr \<lparr>texts = ms, scanErr = e\<rparr>)))"
    using ne by (cases e) (simp_all add: downloadReadySplitSubnets_eq assms(3) p invalidSubnet_def)
  from p 1 2 3 4 5 6 show ?thesis by (intro conjI)
qed

theorem bare_address_rejected_witness:
  "ParsePrefix ''10.20.30.40'' = Inl NoSlash
    \<and> downloadReadySubnets
        (Inr \<lparr>texts = [''10.0.0.0/24''] @ '' 10.20.30.40'' # [''10.0.1.0/24''], scanErr = None\<rparr>)
        = (fst (downloadReadySubnets
                 (Inr \<lparr>texts = [''10.0.0.0/24''] @ [''10.0.1.0/24''], scanErr = None\<rparr>)),
           snd (downloadReadySubnets (Inr \<lparr>texts = [''10.0.0.0/24''], scanErr = None\<rparr>))
           @ [''Invalid subnet: '' @ ''10.20.30.40'']
           @ snd (downloadReadySubnets (Inr \<lparr>texts = [''10.0.1.0/24''], scanErr = None\<rparr>)))"
proof -
  have a: "ParseAddr ''10.20.30.40'' = Inr (AddrFrom4 [10, 20, 30, 40])"
    by (simp add: ParseAddr_def parseIPv4_def parseIPv4Fields_def isDigit_def digitVal_def)
  have b: "Is4 (AddrFrom4 [10, 20, 30, 40])"
    by (simp add: Is4_def AddrFrom4_def)
  have c: "TrimSpace '' 10.20.30.40'' = ''10.20.30.40''"
    by code_simp
  from bare_address_rejected [OF a b c, of _ _ _ _ _ _ _ _ "[''10.0.0.0/24'']" "[''10.0.1.0/24'']" None]
  show ?thesis by blast
qed

text \<open>
  The claim as stated fails on the line \<^verbatim>\<open>1.2.3.4\<close>: it is an IPv4 address, the
  prefix parser rejects it, and a reader logs it and returns the empty list.
\<close>

theorem bare_address_counterexample:
  "ParseAddr ''1.2.3.4'' = Inr (AddrFrom4 [1, 2, 3, 4])
   \<and> ParsePrefix ''1.2.3.4'' = Inl NoSlash
   \<and> downloadReadySubnets (Inr \<lparr>texts = [''1.2.3.4''], scanErr = None\<rparr>)
       = (Inr [], [''Invalid subnet: 1.2.3.4''])"
  by code_simp

section \<open>Filtering and diagnostics\<close>






text \<open>
  Claim C10: \<^verbatim>\<open>processSubnets\<close> filters by AS before parsing. For every entry
  whose AS differs from the target, also one whose subnet string is malformed: the
  loop goes on with builder and log unchanged; wherever the entry stands in the
  input, the result and the log of \<^verbatim>\<open>processSubnets\<close> are those of the input
  without it; and they do not depend on the entry's subnet string.
\<close>

theorem other_as_ignored:
  assumes "as item \<noteq> targetAS"
  shows "processSubnets_loop targetAS (item # rest) (v4Set, lg)
           = processSubnets_loop targetAS rest (v4Set, lg)
    \<and> processSubnets (xs @ item # ys) targetAS = processSubnets (xs @ ys) targetAS
    \<and> processSubnets (xs @ item\<lparr>subnet := s\<rparr> # ys) targetAS
         = processSubnets (xs @ item # ys) targetAS"
  using assms by (simp add: processSubnets_eq)

theorem other_as_ignored_witness:
  "processSubnets
     ([\<lparr>subnet = ''10.0.0.0/24'', as = ''AS1''\<rparr>] @ \<lparr>subnet = ''not-a-subnet'', as = ''AS2''\<rparr>
        # [\<lparr>subnet = ''10.0.1.0/24'', as = ''AS1''\<rparr>]) ''AS1''
   = processSubnets
       ([\<lparr>subnet = ''10.0.0.0/24'', as = ''AS1''\<rparr>] @ [\<lparr>subnet = ''10.0.1.0/24'', as = ''AS1''\<rparr>])
       ''AS1''"
proof -
  have "as \<lparr>subnet = ''not-a-subnet'', as = ''AS2''\<rparr> \<noteq> ''AS1''" by simp
  from other_as_ignored [OF this] show ?thesis by blast
qed







end
